theory Spec2Isabelle
  imports Main "HOL-Library.Word"
begin

section \<open>The calculation example: \<^verbatim>\<open>Examples/Example/main/main.c\<close>\<close>

text \<open>
  The program is one C file whose text is selected by the preprocessor. Two things
  decide what it does: the macros in force when its own lines are translated (after
  both \<^verbatim>\<open>#include\<close> lines), and the helpers of \<^verbatim>\<open>utility.h\<close>.
  The macros are a parameter of every definition below; the state is the text written
  to standard output so far, together with a log of the invocations of \<^verbatim>\<open>calc\<close>.
\<close>

subsection \<open>Data\<close>

text \<open>A C \<^verbatim>\<open>int\<close>: 32 bits, read as a signed number by \<^term>\<open>sint\<close>.\<close>

type_synonym c_int = "32 word"

text \<open>
  The macro definitions seen by \<^verbatim>\<open>main.c\<close>. A field is \<^term>\<open>None\<close> when the
  macro is not defined and \<^term>\<open>Some v\<close> when it is defined and expands to the
  constant \<open>v\<close> (\<^verbatim>\<open>-DCONFIG_ADDITION\<close> gives \<open>Some 1\<close>,
  \<^verbatim>\<open>-DCONFIG_ADDITION=0\<close> gives \<open>Some 0\<close>). \<^verbatim>\<open>main.c\<close> reads two
  different names for the subtraction switch: \<^verbatim>\<open>CONFIG_SUBTRACTION\<close> in
  \<^verbatim>\<open>calc\<close> (line 14) and \<^verbatim>\<open>CONFIG_SUBSTRACTION\<close> in \<^verbatim>\<open>main\<close>
  (line 36); they are two macros. \<^verbatim>\<open>MODE\<close> is the string literal handed to
  \<^verbatim>\<open>printf\<close> at line 29 as its format.
\<close>

record config =
  CONFIG_ADDITION :: "int option"
  CONFIG_SUBTRACTION :: "int option"
  CONFIG_SUBSTRACTION :: "int option"
  CONFIG_DEBUG :: "int option"
  CONFIG_CALCULATION :: "int option"
  MODE :: "string option"

text \<open>\<^verbatim>\<open>defined(X)\<close> and \<^verbatim>\<open>#ifdef X\<close>: the macro has a definition, whatever its value.\<close>

fun defined :: "'a option \<Rightarrow> bool" where
  "defined None = False"
| "defined (Some v) = True"

text \<open>
  Translation stops when an expression names something that nothing declares; no
  executable exists then.
\<close>

datatype error = Undeclared string

text \<open>
  A name used in an expression: the expansion of the macro, or the compiler's
  \<^verbatim>\<open>undeclared\<close> error when no macro of that name is defined.
\<close>

fun ident :: "string \<Rightarrow> 'a option \<Rightarrow> error + 'a" where
  "ident name None = Inl (Undeclared name)"
| "ident name (Some v) = Inr v"

definition and_then :: "error + 'a \<Rightarrow> ('a \<Rightarrow> error + 'b) \<Rightarrow> error + 'b" where
  "and_then m f = (case m of Inl e \<Rightarrow> Inl e | Inr x \<Rightarrow> f x)"

record world =
  stdout :: string
  calc_calls :: "(c_int \<times> c_int) list"

subsection \<open>The C library's \<^verbatim>\<open>printf\<close>\<close>

abbreviation NL :: char where
  "NL \<equiv> CHR 0x0A"

text \<open>The decimal digits of a number that is not negative, most significant first.\<close>

function digits :: "int \<Rightarrow> string" where
  "digits n =
     (if n < 10 then [''0123456789'' ! nat n]
      else digits (n div 10) @ [''0123456789'' ! nat (n mod 10)])"
  by pat_completeness auto
termination
  by (relation "measure nat") auto

declare digits.simps [simp del]

text \<open>The conversion \<^verbatim>\<open>%i\<close>: a signed decimal number.\<close>

definition show_int :: "int \<Rightarrow> string" where
  "show_int i = (if i < 0 then CHR ''-'' # digits (- i) else digits i)"

text \<open>\<^verbatim>\<open>printf\<close> of a text: the text is appended to standard output.\<close>

definition printf :: "string \<Rightarrow> world \<Rightarrow> world" where
  "printf s w = w\<lparr>stdout := stdout w @ s\<rparr>"

text \<open>
  A format printed with no argument, as at line 29. The specification \<^verbatim>\<open>%%\<close>
  writes one percent sign and every other character is written as it is. Any other
  specification takes an argument, and the call passes none: C gives such a call no
  defined behaviour. \<open>conversions_ok\<close> says that the format has no such specification;
  \<open>render\<close> is the text written, and is right about the program only under
  \<open>conversions_ok\<close>, which every statement below about the text of a format assumes.
\<close>

fun conversions_ok :: "string \<Rightarrow> bool" where
  "conversions_ok [] = True"
| "conversions_ok [c] = (c \<noteq> CHR ''%'')"
| "conversions_ok (c # d # cs) =
     (if c = CHR ''%'' then d = CHR ''%'' \<and> conversions_ok cs else conversions_ok (d # cs))"

fun render :: "string \<Rightarrow> string" where
  "render [] = []"
| "render [c] = [c]"
| "render (c # d # cs) =
     (if c = CHR ''%'' \<and> d = CHR ''%'' then CHR ''%'' # render cs else c # render (d # cs))"

text \<open>The text of the format \<^verbatim>\<open>"%i %c %i = %i\n"\<close> for its four arguments.\<close>

definition format_result :: "c_int \<Rightarrow> char \<Rightarrow> c_int \<Rightarrow> c_int \<Rightarrow> string" where
  "format_result operand1 op operand2 result =
     show_int (sint operand1) @ '' '' @ [op] @ '' '' @ show_int (sint operand2) @
     '' = '' @ show_int (sint result) @ [NL]"

subsection \<open>The helpers of \<^verbatim>\<open>utility.h\<close>\<close>

text \<open>
  Modelled from the spec: \<^verbatim>\<open>add\<close> is declared in \<^verbatim>\<open>utility.h\<close>, which is not
  among the sources. The spec: "If mode = Addition: result = operand1 + operand2"; "all
  operations are total". The sum is the sum of C \<^verbatim>\<open>int\<close>s.
\<close>

definition add :: "c_int \<Rightarrow> c_int \<Rightarrow> c_int" where
  "add a b = a + b"

text \<open>
  Modelled from the spec: \<^verbatim>\<open>sub\<close> is declared in \<^verbatim>\<open>utility.h\<close>, which is not
  among the sources. The spec: "If mode = Subtraction: result = operand1 - operand2".
\<close>

definition sub :: "c_int \<Rightarrow> c_int \<Rightarrow> c_int" where
  "sub a b = a - b"

subsection \<open>\<^verbatim>\<open>calc\<close>\<close>

text \<open>
  Lines 5 to 22: the conditional group. It gives the state after the group's
  \<^verbatim>\<open>printf\<close> and the locals \<^verbatim>\<open>result\<close> and \<^verbatim>\<open>op\<close>. When neither
  branch is kept, line 24 names two locals that nothing declares.
\<close>

definition calc_group :: "config \<Rightarrow> c_int \<Rightarrow> c_int \<Rightarrow> world \<Rightarrow> error + (world \<times> c_int \<times> char)" where
  "calc_group cfg operand1 operand2 w =
     (if defined (CONFIG_ADDITION cfg) then
        Inr (if defined (CONFIG_DEBUG cfg) then printf ''Addition'' w else w,
             add operand1 operand2, CHR ''+'')
      else if defined (CONFIG_SUBTRACTION cfg) then
        Inr (if defined (CONFIG_DEBUG cfg) then printf ''Substraction'' w else w,
             sub operand1 operand2, CHR ''-'')
      else Inl (Undeclared ''op''))"

text \<open>The whole function: the invocation is logged, then the group, then line 24.\<close>

definition calc :: "config \<Rightarrow> c_int \<Rightarrow> c_int \<Rightarrow> world \<Rightarrow> error + world" where
  "calc cfg operand1 operand2 w =
     and_then (calc_group cfg operand1 operand2
             (w\<lparr>calc_calls := calc_calls w @ [(operand1, operand2)]\<rparr>))
       (\<lambda>(w1, result, op). Inr (printf (format_result operand1 op operand2 result) w1))"

subsection \<open>\<^verbatim>\<open>main\<close>\<close>

text \<open>
  \<^verbatim>\<open>calc\<close> is translated whether or not it is called: its group must declare the
  locals of line 24.
\<close>

definition calc_translates :: "config \<Rightarrow> error + unit" where
  "calc_translates cfg =
     (if defined (CONFIG_ADDITION cfg) \<or> defined (CONFIG_SUBTRACTION cfg) then Inr ()
      else Inl (Undeclared ''op''))"

text \<open>
  Lines 27 to 47. \<^verbatim>\<open>argc\<close> and \<^verbatim>\<open>argv\<close> are the parameters of the source.
  Line 29 hands \<^verbatim>\<open>MODE\<close> to \<^verbatim>\<open>printf\<close> as a format with no argument, so
  what is written is \<open>render\<close> of it. The result is the final state and the value
  returned to the environment.
\<close>

definition main :: "config \<Rightarrow> c_int \<Rightarrow> string list \<Rightarrow> world \<Rightarrow> error + (world \<times> c_int)" where
  "main cfg argc argv w =
     and_then (calc_translates cfg) (\<lambda>_.
     and_then (if defined (CONFIG_DEBUG cfg)
           then and_then (ident ''MODE'' (MODE cfg)) (\<lambda>m. Inr (printf (render m) w))
           else Inr w) (\<lambda>w1.
     and_then (Inr (printf (''Calculation Example'' @ [NL]) w1)) (\<lambda>w2.
     and_then (ident ''CONFIG_ADDITION'' (CONFIG_ADDITION cfg)) (\<lambda>c_addition.
     and_then (ident ''CONFIG_SUBSTRACTION'' (CONFIG_SUBSTRACTION cfg)) (\<lambda>c_substraction.
     and_then (Inr (if c_addition \<noteq> 0 then printf (''Adding 37 to 73'' @ [NL]) w2
                else if c_substraction \<noteq> 0 then printf (''Substracting 37 from 73'' @ [NL]) w2
                else printf (''No operation specified; nothing to calculate'' @ [NL]) w2)) (\<lambda>w3.
     and_then (if defined (CONFIG_CALCULATION cfg) then calc cfg 73 37 w3 else Inr w3) (\<lambda>w4.
     Inr (w4, 0))))))))"

text \<open>The state in which a process starts: nothing written, nothing called.\<close>

definition start :: world where
  "start = \<lparr>stdout = [], calc_calls = []\<rparr>"

subsection \<open>Reading the output\<close>

text \<open>The lines of a text: the pieces between its newline characters.\<close>

fun lines_of :: "string \<Rightarrow> string list" where
  "lines_of [] = []"
| "lines_of (c # cs) =
     (if c = NL then [] # lines_of cs
      else (case lines_of cs of [] \<Rightarrow> [[c]] | l # ls \<Rightarrow> (c # l) # ls))"

text \<open>
  Every name that an expression of the file uses is declared: \<^verbatim>\<open>op\<close> and
  \<^verbatim>\<open>result\<close> at line 24, \<^verbatim>\<open>MODE\<close> at line 29 when that line is kept,
  \<^verbatim>\<open>CONFIG_ADDITION\<close> at line 34 and \<^verbatim>\<open>CONFIG_SUBSTRACTION\<close> at line 36.
\<close>

definition translates :: "config \<Rightarrow> bool" where
  "translates cfg \<longleftrightarrow>
     (defined (CONFIG_ADDITION cfg) \<or> defined (CONFIG_SUBTRACTION cfg)) \<and>
     (if defined (CONFIG_DEBUG cfg) then defined (MODE cfg) else True) \<and>
     defined (CONFIG_ADDITION cfg) \<and> defined (CONFIG_SUBSTRACTION cfg)"

text \<open>The text of line 29, when the line is kept.\<close>

definition debug_banner :: "config \<Rightarrow> string" where
  "debug_banner cfg =
     (if defined (CONFIG_DEBUG cfg)
      then (case MODE cfg of None \<Rightarrow> [] | Some m \<Rightarrow> render m) else [])"

text \<open>
  The call of line 29 has a defined behaviour: the line is not kept, or the format
  \<^verbatim>\<open>MODE\<close> has no specification that takes an argument.
\<close>

definition format_ok :: "config \<Rightarrow> bool" where
  "format_ok cfg =
     (if defined (CONFIG_DEBUG cfg)
      then (case MODE cfg of None \<Rightarrow> True | Some m \<Rightarrow> conversions_ok m) else True)"

text \<open>The line chosen by the conditional of lines 34 to 40.\<close>

definition mode_banner :: "config \<Rightarrow> string" where
  "mode_banner cfg =
     (case (CONFIG_ADDITION cfg, CONFIG_SUBSTRACTION cfg) of
        (Some c_addition, Some c_substraction) \<Rightarrow>
          (if c_addition \<noteq> 0 then ''Adding 37 to 73'' @ [NL]
           else if c_substraction \<noteq> 0 then ''Substracting 37 from 73'' @ [NL]
           else ''No operation specified; nothing to calculate'' @ [NL])
      | _ \<Rightarrow> [])"

text \<open>The text of line 8 or line 17, when \<^verbatim>\<open>calc\<close> keeps one of them.\<close>

definition operation_name :: "config \<Rightarrow> string" where
  "operation_name cfg =
     (if defined (CONFIG_DEBUG cfg)
      then (if defined (CONFIG_ADDITION cfg) then ''Addition''
            else if defined (CONFIG_SUBTRACTION cfg) then ''Substraction'' else [])
      else [])"

text \<open>The text that line 24 writes in the call \<^verbatim>\<open>calc(73, 37)\<close>.\<close>

definition result_line :: "config \<Rightarrow> string" where
  "result_line cfg =
     (case calc_group cfg 73 37 start of
        Inl e \<Rightarrow> []
      | Inr (w1, result, op) \<Rightarrow> format_result 73 op 37 result)"

text \<open>
  The output as section 6 of the specification lists it, in its words: the debug banner
  when Debug is enabled, "Calculation Example", the line selected by the mode and, when
  the calculation gate is enabled, the line of operands, symbol and result. It is
  compared with the output of \<^const>\<open>main\<close> below.
\<close>

definition listed_stdout :: "config \<Rightarrow> string" where
  "listed_stdout cfg =
     debug_banner cfg @ (''Calculation Example'' @ [NL]) @ mode_banner cfg @
     (if defined (CONFIG_CALCULATION cfg) then result_line cfg else [])"

text \<open>
  Modelled from the spec: the expansion of \<^verbatim>\<open>MODE\<close> comes from \<^verbatim>\<open>utility.h\<close>,
  which is not among the sources. The spec: "Debug enabled + Addition: an extra
  "Addition" (or mode-name) line precedes the standard banner sequence". In addition
  mode the macro is the mode's name on a line of its own.
\<close>

definition MODE_addition :: string where
  "MODE_addition = ''Addition'' @ [NL]"

subsection \<open>Some builds\<close>

text \<open>\<^verbatim>\<open>-DCONFIG_ADDITION=1 -DCONFIG_SUBSTRACTION=0 -DCONFIG_CALCULATION\<close>\<close>

definition build_addition :: config where
  "build_addition =
     \<lparr>CONFIG_ADDITION = Some 1, CONFIG_SUBTRACTION = None, CONFIG_SUBSTRACTION = Some 0,
      CONFIG_DEBUG = None, CONFIG_CALCULATION = Some 1, MODE = None\<rparr>"

text \<open>
  \<^verbatim>\<open>-DCONFIG_ADDITION=0 -DCONFIG_SUBTRACTION=1 -DCONFIG_SUBSTRACTION=1 -DCONFIG_CALCULATION\<close>:
  addition switched off, subtraction switched on under both of its spellings.
\<close>

definition build_subtraction :: config where
  "build_subtraction =
     \<lparr>CONFIG_ADDITION = Some 0, CONFIG_SUBTRACTION = Some 1, CONFIG_SUBSTRACTION = Some 1,
      CONFIG_DEBUG = None, CONFIG_CALCULATION = Some 1, MODE = None\<rparr>"

text \<open>
  \<^verbatim>\<open>-DCONFIG_SUBTRACTION\<close> alone, for \<^verbatim>\<open>calc\<close> taken by itself: the macros
  under which its second branch is kept.
\<close>

definition only_subtraction :: config where
  "only_subtraction =
     \<lparr>CONFIG_ADDITION = None, CONFIG_SUBTRACTION = Some 1, CONFIG_SUBSTRACTION = None,
      CONFIG_DEBUG = None, CONFIG_CALCULATION = None, MODE = None\<rparr>"

text \<open>\<^verbatim>\<open>-DCONFIG_ADDITION=0 -DCONFIG_SUBSTRACTION=0 -DCONFIG_CALCULATION\<close>: no operation, gate on.\<close>

definition build_none :: config where
  "build_none =
     \<lparr>CONFIG_ADDITION = Some 0, CONFIG_SUBTRACTION = None, CONFIG_SUBSTRACTION = Some 0,
      CONFIG_DEBUG = None, CONFIG_CALCULATION = Some 1, MODE = None\<rparr>"

text \<open>\<^verbatim>\<open>-DCONFIG_ADDITION=0 -DCONFIG_SUBSTRACTION=0\<close>: no operation, gate off.\<close>

definition build_none_gate_off :: config where
  "build_none_gate_off =
     \<lparr>CONFIG_ADDITION = Some 0, CONFIG_SUBTRACTION = None, CONFIG_SUBSTRACTION = Some 0,
      CONFIG_DEBUG = None, CONFIG_CALCULATION = None, MODE = None\<rparr>"

text \<open>
  \<^verbatim>\<open>-DCONFIG_ADDITION=1 -DCONFIG_SUBSTRACTION=0 -DCONFIG_DEBUG -DCONFIG_CALCULATION\<close>,
  with \<^verbatim>\<open>MODE\<close> the line "Addition".
\<close>

definition build_debug :: config where
  "build_debug =
     \<lparr>CONFIG_ADDITION = Some 1, CONFIG_SUBTRACTION = None, CONFIG_SUBSTRACTION = Some 0,
      CONFIG_DEBUG = Some 1, CONFIG_CALCULATION = Some 1, MODE = Some MODE_addition\<rparr>"

text \<open>
  \<^verbatim>\<open>-DCONFIG_ADDITION=1 -DCONFIG_SUBSTRACTION=0 -DCONFIG_DEBUG -DMODE="100%%"\<close>: a
  format with the specification \<^verbatim>\<open>%%\<close>, and the gate off.
\<close>

definition build_percent :: config where
  "build_percent =
     \<lparr>CONFIG_ADDITION = Some 1, CONFIG_SUBTRACTION = None, CONFIG_SUBSTRACTION = Some 0,
      CONFIG_DEBUG = Some 1, CONFIG_CALCULATION = None, MODE = Some ''100%%''\<rparr>"

section \<open>Properties\<close>

subsection \<open>Auxiliary facts\<close>

lemma defined_iff: "defined x \<longleftrightarrow> x \<noteq> None"
  by (cases x) simp_all

lemma digits_chars: "set (digits n) \<subseteq> set ''0123456789''"
proof (induction n rule: digits.induct)
  case (1 n)
  show ?case
  proof (cases "n < 10")
    case True
    then have "nat n < 10" by simp
    then have "''0123456789'' ! nat n \<in> set ''0123456789''"
      by (intro nth_mem) simp
    with True show ?thesis by (subst digits.simps) simp
  next
    case False
    have "nat (n mod 10) < 10" by simp
    then have "''0123456789'' ! nat (n mod 10) \<in> set ''0123456789''"
      by (intro nth_mem) simp
    with False 1 show ?thesis by (subst digits.simps) simp
  qed
qed

lemma show_int_no_newline: "NL \<notin> set (show_int i)"
  using digits_chars [of i] digits_chars [of "- i"] by (auto simp: show_int_def)

lemma format_result_line:
  assumes "op \<noteq> NL"
  shows "\<exists>arith. format_result a op b r = arith @ [NL] \<and> NL \<notin> set arith"
proof -
  let ?arith = "show_int (sint a) @ '' '' @ [op] @ '' '' @ show_int (sint b) @ '' = '' @ show_int (sint r)"
  have "format_result a op b r = ?arith @ [NL]"
    by (simp add: format_result_def)
  moreover have "NL \<notin> set ?arith"
    using assms by (simp add: show_int_no_newline)
  ultimately show ?thesis by blast
qed

lemma lines_of_single: "NL \<notin> set xs \<Longrightarrow> lines_of (xs @ [NL]) = [xs]"
  by (induction xs) auto

text \<open>
  The sum and the difference of \<^verbatim>\<open>utility.h\<close> are those of C \<^verbatim>\<open>int\<close>s: they
  are the numbers' sum and difference whenever these fit 32 bits, and the model wraps
  around where they do not (C leaves that case undefined).
\<close>

lemma add_sint:
  assumes "- (2 ^ 31) \<le> sint a + sint b" and "sint a + sint b < 2 ^ 31"
  shows "sint (add a b) = sint a + sint b"
  using assms by (simp add: add_def sint_word_ariths signed_take_bit_int_eq_self)

lemma sub_sint:
  assumes "- (2 ^ 31) \<le> sint a - sint b" and "sint a - sint b < 2 ^ 31"
  shows "sint (sub a b) = sint a - sint b"
  using assms by (simp add: sub_def sint_word_ariths signed_take_bit_int_eq_self)

lemma add_wraps: "sint (add 2147483647 1) = - 2147483648"
  by (simp add: add_def)

lemma format_73_37: "format_result 73 (CHR ''+'') 37 110 = ''73 + 37 = 110'' @ [NL]"
  by code_simp

lemma calc_writes_sum:
  "defined (CONFIG_ADDITION cfg) \<Longrightarrow>
   calc cfg a b w =
     Inr (w\<lparr>calc_calls := calc_calls w @ [(a, b)],
            stdout := stdout w @ operation_name cfg @ format_result a (CHR ''+'') b (a + b)\<rparr>)"
  by (simp add: calc_def calc_group_def and_then_def printf_def add_def operation_name_def)

lemma calc_writes_difference:
  "\<not> defined (CONFIG_ADDITION cfg) \<Longrightarrow> defined (CONFIG_SUBTRACTION cfg) \<Longrightarrow>
   calc cfg a b w =
     Inr (w\<lparr>calc_calls := calc_calls w @ [(a, b)],
            stdout := stdout w @ operation_name cfg @ format_result a (CHR ''-'') b (a - b)\<rparr>)"
  by (simp add: calc_def calc_group_def and_then_def printf_def sub_def operation_name_def)

lemma result_line_addition:
  "defined (CONFIG_ADDITION cfg) \<Longrightarrow> result_line cfg = ''73 + 37 = 110'' @ [NL]"
  by (simp add: result_line_def calc_group_def add_def format_73_37)

lemma main_translated:
  assumes "translates cfg"
  shows "main cfg argc argv w =
     Inr (w\<lparr>stdout := stdout w @ debug_banner cfg @ (''Calculation Example'' @ [NL]) @ mode_banner cfg @
               (if defined (CONFIG_CALCULATION cfg)
                then operation_name cfg @ (''73 + 37 = 110'' @ [NL]) else []),
             calc_calls := calc_calls w @ (if defined (CONFIG_CALCULATION cfg) then [(73, 37)] else [])\<rparr>, 0)"
proof -
  from assms obtain a s where a: "CONFIG_ADDITION cfg = Some a" and s: "CONFIG_SUBSTRACTION cfg = Some s"
    by (auto simp: translates_def defined_iff)
  from assms have m: "defined (CONFIG_DEBUG cfg) \<Longrightarrow> \<exists>m. MODE cfg = Some m"
    by (auto simp: translates_def defined_iff)
  have c: "calc_translates cfg = Inr ()"
    using a by (simp add: calc_translates_def)
  have f: "format_result 73 (CHR ''+'') 37 (73 + 37) = ''73 + 37 = 110'' @ [NL]"
    using format_73_37 by simp
  show ?thesis
  proof (cases "defined (CONFIG_DEBUG cfg)")
    case True
    then obtain t where t: "MODE cfg = Some t" using m by blast
    show ?thesis using a s c t True
      by (simp add: main_def and_then_def printf_def calc_writes_sum f format_73_37 debug_banner_def mode_banner_def)
  next
    case False
    show ?thesis using a s c False
      by (simp add: main_def and_then_def printf_def calc_writes_sum f format_73_37 debug_banner_def mode_banner_def)
  qed
qed

lemma main_untranslated:
  assumes "\<not> translates cfg"
  shows "\<exists>e. main cfg argc argv w = Inl e"
  using assms
  by (cases "CONFIG_ADDITION cfg"; cases "CONFIG_SUBSTRACTION cfg"; cases "MODE cfg"; cases "CONFIG_SUBTRACTION cfg"; cases "CONFIG_DEBUG cfg")
     (simp_all add: translates_def main_def and_then_def calc_translates_def)

lemma format_73_37_sub: "format_result 73 (CHR ''-'') 37 36 = ''73 - 37 = 36'' @ [NL]"
  by code_simp

lemma main_Inr_translates:
  assumes "main cfg argc argv w = Inr r"
  shows "translates cfg"
proof (rule ccontr)
  assume "\<not> translates cfg"
  from main_untranslated [OF this, of argc argv w] assms show False by auto
qed

lemma translated_calc_adds:
  assumes "main cfg argc argv w = Inr r"
  shows "map_sum id snd (calc_group cfg a b w1) = Inr (a + b, CHR ''+'')"
proof -
  from main_Inr_translates [OF assms] have "defined (CONFIG_ADDITION cfg)"
    by (simp add: translates_def)
  then show ?thesis by (simp add: calc_group_def add_def)
qed

text \<open>
  With \<^verbatim>\<open>CONFIG_SUBTRACTION\<close> defined and nothing else, \<^verbatim>\<open>main.c\<close> does not
  translate: line 34 names \<^verbatim>\<open>CONFIG_ADDITION\<close>.
\<close>

lemma subtraction_only_does_not_translate:
  "main only_subtraction 1 [] start = Inl (Undeclared ''CONFIG_ADDITION'')"
  by code_simp

text \<open>
  The format \<^verbatim>\<open>"100%%"\<close> is written as \<^verbatim>\<open>100%\<close>, and nothing separates it
  from the next line's text.
\<close>

lemma percent_format_rendered:
  "format_ok build_percent \<and>
   main build_percent 1 [] start =
     Inr (\<lparr>stdout = ''100%'' @ (''Calculation Example'' @ [NL]) @ (''Adding 37 to 73'' @ [NL]),
           calc_calls = []\<rparr>, 0)"
  by code_simp

subsection \<open>The calculator\<close>

text \<open>
  Claim C1. For every pair of integers \<open>(a, b)\<close>, in Addition mode the calculator
  computes \<open>result = a + b\<close> and \<open>symbol = '+'\<close>. Addition mode in \<^verbatim>\<open>calc\<close>
  is the first branch of its conditional group, kept when \<^verbatim>\<open>CONFIG_ADDITION\<close> is
  defined. The locals at line 24 are \<open>a + b\<close> and \<open>'+'\<close>, and line 24 prints the
  operands, that symbol and that result. The operands are C \<^verbatim>\<open>int\<close>s and the sum
  is theirs; \<open>add_sint\<close> reads it as a sum of numbers.
\<close>

theorem calc_addition:
  assumes "defined (CONFIG_ADDITION cfg)"
  shows "map_sum id snd (calc_group cfg a b w) = Inr (a + b, CHR ''+'') \<and>
    (\<exists>w'. calc cfg a b w = Inr w' \<and>
       stdout w' = stdout w @ operation_name cfg @ format_result a (CHR ''+'') b (a + b))"
  using assms by (simp add: calc_group_def add_def calc_writes_sum)

theorem calc_addition_witness:
  "defined (CONFIG_ADDITION build_addition) \<and>
   map_sum id snd (calc_group build_addition 73 37 start) = Inr (110, CHR ''+'') \<and>
   (\<exists>w'. calc build_addition 73 37 start = Inr w' \<and> stdout w' = ''73 + 37 = 110'' @ [NL])"
proof -
  have h: "defined (CONFIG_ADDITION build_addition)"
    by (simp add: build_addition_def)
  have n: "operation_name build_addition = []"
    by (simp add: operation_name_def build_addition_def)
  show ?thesis
    using h calc_addition [OF h, of 73 37 start]
    by (simp add: n start_def format_73_37)
qed

subsection \<open>The subtraction build\<close>

text \<open>
  Claim C2. For every pair of integers \<open>(a, b)\<close>, in Subtraction mode the calculator
  computes \<open>result = a - b\<close> and \<open>symbol = '-'\<close>. The calculator does not: in the
  build that switches addition off and subtraction on, \<^verbatim>\<open>calc\<close> has
  \<open>a + b\<close> and \<open>'+'\<close> at line 24, and prints them. Its second branch (lines 14 to
  21) has the difference and \<open>'-'\<close>, but line 5 keeps the first branch whenever
  \<^verbatim>\<open>CONFIG_ADDITION\<close> is defined, also as 0, and \<^verbatim>\<open>main\<close> needs it
  defined (\<open>translated_calc_adds\<close>).
\<close>

theorem subtraction_build_calc_adds:
  "map_sum id snd (calc_group build_subtraction a b w) = Inr (a + b, CHR ''+'') \<and>
   map_sum id snd (calc_group build_subtraction 73 37 start) = Inr (110, CHR ''+'') \<and>
   (\<exists>w'. calc build_subtraction a b w = Inr w' \<and>
      stdout w' = stdout w @ format_result a (CHR ''+'') b (a + b))"
proof -
  have d: "defined (CONFIG_ADDITION build_subtraction)"
    and n: "operation_name build_subtraction = []"
    by (simp_all add: build_subtraction_def operation_name_def)
  have "map_sum id snd (calc_group build_subtraction a b w) = Inr (a + b, CHR ''+'')" for a b w
    using d by (simp add: calc_group_def add_def)
  moreover have "\<exists>w'. calc build_subtraction a b w = Inr w' \<and>
      stdout w' = stdout w @ format_result a (CHR ''+'') b (a + b)"
    using d by (simp add: calc_writes_sum n)
  ultimately show ?thesis by simp
qed

text \<open>
  Claim C3. When the build-time mode is Subtraction with operands \<open>(73, 37)\<close>, the
  program prints the banner "Substracting 37 from 73" and then the line "73 - 37 = 36".
  The program does not: in the build that switches addition off and subtraction on, the
  banner is followed by the line "73 + 37 = 110". \<^verbatim>\<open>main\<close> tests the value of
  \<^verbatim>\<open>CONFIG_ADDITION\<close> (line 34), \<^verbatim>\<open>calc\<close> tests whether it is defined
  (line 5); a macro that expands to 0 is defined. By \<open>translated_calc_adds\<close> the
  second branch of \<^verbatim>\<open>calc\<close> is kept in no build that translates, and by
  \<open>subtraction_only_does_not_translate\<close> leaving \<^verbatim>\<open>CONFIG_ADDITION\<close>
  undefined gives no program.
\<close>

theorem subtraction_build_adds:
  "main build_subtraction 1 [] start =
     Inr (\<lparr>stdout = (''Calculation Example'' @ [NL]) @ (''Substracting 37 from 73'' @ [NL]) @
                     (''73 + 37 = 110'' @ [NL]),
           calc_calls = [(73, 37)]\<rparr>, 0)"
  by code_simp

subsection \<open>No operation\<close>

text \<open>
  Claim C4, as stated: when the build-time mode is None, the calculator is never
  invoked, and the program emits "No operation specified; nothing to calculate" and no
  arithmetic result line, whatever the other flags. It fails in the build below, where
  the calculation gate is enabled: line 43 calls \<^verbatim>\<open>calc(73, 37)\<close> under
  \<^verbatim>\<open>CONFIG_CALCULATION\<close> alone.
\<close>

theorem none_mode_calc_invoked:
  "main build_none 1 [] start =
     Inr (\<lparr>stdout = (''Calculation Example'' @ [NL]) @
                     (''No operation specified; nothing to calculate'' @ [NL]) @
                     (''73 + 37 = 110'' @ [NL]),
           calc_calls = [(73, 37)]\<rparr>, 0)"
  by code_simp

text \<open>
  Claim C4, amended. When the build-time mode is None (the conditional of
  \<^verbatim>\<open>main\<close> reaches its last branch: \<^verbatim>\<open>CONFIG_ADDITION\<close> and
  \<^verbatim>\<open>CONFIG_SUBSTRACTION\<close> both expand to 0), the program emits "No operation
  specified; nothing to calculate" after "Calculation Example"; the calculator is
  invoked, and text follows the message, exactly when the calculation gate
  \<^verbatim>\<open>CONFIG_CALCULATION\<close> is defined. With the gate off the calculator is never
  invoked and no arithmetic result line is emitted. The debug banner, when Debug is
  enabled, is the text of the format \<^verbatim>\<open>MODE\<close>, which has no specification that
  takes an argument.
\<close>

theorem none_mode_gate:
  assumes "CONFIG_ADDITION cfg = Some 0" and "CONFIG_SUBSTRACTION cfg = Some 0"
    and "translates cfg" and "format_ok cfg"
  shows "\<exists>w' rest. main cfg argc argv w = Inr (w', 0) \<and>
     stdout w' = stdout w @ debug_banner cfg @ (''Calculation Example'' @ [NL]) @
                 (''No operation specified; nothing to calculate'' @ [NL]) @ rest \<and>
     calc_calls w' = calc_calls w @ (if defined (CONFIG_CALCULATION cfg) then [(73, 37)] else []) \<and>
     (rest = [] \<longleftrightarrow> \<not> defined (CONFIG_CALCULATION cfg))"
proof -
  have b: "mode_banner cfg = ''No operation specified; nothing to calculate'' @ [NL]"
    using assms by (simp add: mode_banner_def)
  show ?thesis
    unfolding main_translated [OF assms(3)] b by simp
qed

theorem none_mode_gate_witness:
  "CONFIG_ADDITION build_none_gate_off = Some 0 \<and>
   CONFIG_SUBSTRACTION build_none_gate_off = Some 0 \<and>
   translates build_none_gate_off \<and> format_ok build_none_gate_off \<and>
   (\<exists>w'. main build_none_gate_off 1 [] start = Inr (w', 0) \<and>
      stdout w' = (''Calculation Example'' @ [NL]) @
                  (''No operation specified; nothing to calculate'' @ [NL]) \<and>
      calc_calls w' = [])"
proof -
  have h1: "CONFIG_ADDITION build_none_gate_off = Some 0"
    and h2: "CONFIG_SUBSTRACTION build_none_gate_off = Some 0"
    and h3: "translates build_none_gate_off"
    and h4: "format_ok build_none_gate_off"
    and g: "\<not> defined (CONFIG_CALCULATION build_none_gate_off)"
    and d: "debug_banner build_none_gate_off = []"
    by (simp_all add: build_none_gate_off_def translates_def format_ok_def debug_banner_def)
  from none_mode_gate [OF h1 h2 h3 h4, of 1 "[]" start]
  obtain w' rest where "main build_none_gate_off 1 [] start = Inr (w', 0)"
    and "stdout w' = stdout start @ debug_banner build_none_gate_off @
           (''Calculation Example'' @ [NL]) @
           (''No operation specified; nothing to calculate'' @ [NL]) @ rest"
    and "calc_calls w' = calc_calls start @
           (if defined (CONFIG_CALCULATION build_none_gate_off) then [(73, 37)] else [])"
    and "rest = [] \<longleftrightarrow> \<not> defined (CONFIG_CALCULATION build_none_gate_off)"
    by blast
  with g d have "main build_none_gate_off 1 [] start = Inr (w', 0) \<and>
      stdout w' = (''Calculation Example'' @ [NL]) @
                  (''No operation specified; nothing to calculate'' @ [NL]) \<and>
      calc_calls w' = []"
    by (simp add: start_def)
  with h1 h2 h3 h4 show ?thesis by blast
qed

subsection \<open>Debug output before the banners\<close>

text \<open>
  Claim C5. When the Debug flag is enabled together with Addition mode, an extra
  "Addition" (mode-name) diagnostic line is printed and it precedes the standard banner
  sequence (the "Calculation Example" line and the mode banner). The text printed first
  is the expansion of \<^verbatim>\<open>MODE\<close> (line 29), here the one the specification gives
  for addition mode; \<^verbatim>\<open>main\<close> writes it before "Calculation Example" and
  "Adding 37 to 73". Addition mode is the first branch of the conditional of
  \<^verbatim>\<open>main\<close>: \<^verbatim>\<open>CONFIG_ADDITION\<close> expands to a value that is not 0.
\<close>

theorem debug_addition_banner_first:
  assumes "defined (CONFIG_DEBUG cfg)" and "MODE cfg = Some MODE_addition"
    and "CONFIG_ADDITION cfg = Some c" and "c \<noteq> 0" and "defined (CONFIG_SUBSTRACTION cfg)"
  shows "\<exists>w' rest. main cfg argc argv w = Inr (w', 0) \<and>
     stdout w' = stdout w @ (''Addition'' @ [NL]) @ (''Calculation Example'' @ [NL]) @
                 (''Adding 37 to 73'' @ [NL]) @ rest"
proof -
  have t: "translates cfg"
    using assms by (simp add: translates_def)
  have d: "debug_banner cfg = ''Addition'' @ [NL]"
    using assms by (simp add: debug_banner_def MODE_addition_def)
  have b: "mode_banner cfg = ''Adding 37 to 73'' @ [NL]"
    using assms by (auto simp: mode_banner_def defined_iff)
  show ?thesis
    unfolding main_translated [OF t] d b by simp
qed

theorem debug_addition_banner_first_witness:
  "defined (CONFIG_DEBUG build_debug) \<and> MODE build_debug = Some MODE_addition \<and>
   CONFIG_ADDITION build_debug = Some 1 \<and> defined (CONFIG_SUBSTRACTION build_debug) \<and>
   (\<exists>w' rest. main build_debug 1 [] start = Inr (w', 0) \<and>
      stdout w' = (''Addition'' @ [NL]) @ (''Calculation Example'' @ [NL]) @
                  (''Adding 37 to 73'' @ [NL]) @ rest)"
proof -
  have h1: "defined (CONFIG_DEBUG build_debug)"
    and h2: "MODE build_debug = Some MODE_addition"
    and h3: "CONFIG_ADDITION build_debug = Some 1"
    and h5: "defined (CONFIG_SUBSTRACTION build_debug)"
    by (simp_all add: build_debug_def)
  have h4: "(1::int) \<noteq> 0" by simp
  show ?thesis
    using h1 h2 h3 h5 debug_addition_banner_first [OF h1 h2 h3 h4 h5, of 1 "[]" start]
    by (simp add: start_def)
qed

subsection \<open>The order of the output\<close>

text \<open>
  Claim C6, as stated: for every build configuration the output is, in this order, the
  optional debug banner, "Calculation Example", exactly one mode-selected line and, only
  if the calculation gate is enabled, the line of operands, symbol and result. It fails
  in the build with Debug and the gate both enabled: \<^verbatim>\<open>calc\<close> writes the
  operation name (line 8) between the mode-selected line and the result.
\<close>

theorem debug_build_not_as_listed:
  "map_sum id (stdout \<circ> fst) (main build_debug 1 [] start) =
     Inr ((''Addition'' @ [NL]) @ (''Calculation Example'' @ [NL]) @ (''Adding 37 to 73'' @ [NL]) @
          ''Addition'' @ (''73 + 37 = 110'' @ [NL])) \<and>
   listed_stdout build_debug =
     (''Addition'' @ [NL]) @ (''Calculation Example'' @ [NL]) @ (''Adding 37 to 73'' @ [NL]) @
     (''73 + 37 = 110'' @ [NL]) \<and>
   map_sum id (stdout \<circ> fst) (main build_debug 1 [] start) \<noteq> Inr (listed_stdout build_debug)"
  by code_simp

text \<open>
  Claim C6, amended. For every build configuration that translates and whose format
  \<^verbatim>\<open>MODE\<close> has no specification that takes an argument, the output is, in this
  order: the debug banner (the text of the format \<^verbatim>\<open>MODE\<close>, only if Debug is
  enabled), "Calculation Example", exactly one mode-selected line and, only if the
  calculation gate is enabled, the operation name "Addition" or "Substraction" (only if
  Debug is enabled), followed by the text of operands, symbol and result.
\<close>

theorem stdout_order:
  assumes "translates cfg" and "format_ok cfg"
  shows "\<exists>w'. main cfg argc argv w = Inr (w', 0) \<and>
     stdout w' = stdout w @ debug_banner cfg @ (''Calculation Example'' @ [NL]) @ mode_banner cfg @
                 (if defined (CONFIG_CALCULATION cfg) then operation_name cfg @ result_line cfg else []) \<and>
     (if defined (CONFIG_DEBUG cfg)
      then (\<exists>m. MODE cfg = Some m \<and> conversions_ok m \<and> debug_banner cfg = render m)
      else debug_banner cfg = []) \<and>
     mode_banner cfg \<in> {''Adding 37 to 73'' @ [NL], ''Substracting 37 from 73'' @ [NL],
                        ''No operation specified; nothing to calculate'' @ [NL]} \<and>
     (if defined (CONFIG_DEBUG cfg) then operation_name cfg \<in> {''Addition'', ''Substraction''}
      else operation_name cfg = []) \<and>
     (\<exists>op result. result_line cfg = format_result 73 op 37 result)"
proof -
  from assms(1) obtain a s where a: "CONFIG_ADDITION cfg = Some a" and s: "CONFIG_SUBSTRACTION cfg = Some s"
    by (auto simp: translates_def defined_iff)
  have r: "result_line cfg = ''73 + 37 = 110'' @ [NL]"
    using a by (simp add: result_line_addition)
  have m: "if defined (CONFIG_DEBUG cfg)
      then (\<exists>m. MODE cfg = Some m \<and> conversions_ok m \<and> debug_banner cfg = render m)
      else debug_banner cfg = []"
    using assms by (auto simp: translates_def format_ok_def debug_banner_def defined_iff)
  have b: "mode_banner cfg \<in> {''Adding 37 to 73'' @ [NL], ''Substracting 37 from 73'' @ [NL],
                        ''No operation specified; nothing to calculate'' @ [NL]}"
    using a s by (simp add: mode_banner_def)
  have n: "if defined (CONFIG_DEBUG cfg) then operation_name cfg \<in> {''Addition'', ''Substraction''}
      else operation_name cfg = []"
    using a by (simp add: operation_name_def)
  have l: "\<exists>op result. result_line cfg = format_result 73 op 37 result"
    using r format_73_37 by metis
  have "main cfg argc argv w = Inr (w\<lparr>stdout := stdout w @ debug_banner cfg @ (''Calculation Example'' @ [NL]) @ mode_banner cfg @
               (if defined (CONFIG_CALCULATION cfg)
                then operation_name cfg @ (''73 + 37 = 110'' @ [NL]) else []),
             calc_calls := calc_calls w @ (if defined (CONFIG_CALCULATION cfg) then [(73, 37)] else [])\<rparr>, 0)"
    by (rule main_translated [OF assms(1)])
  then have "\<exists>w'. main cfg argc argv w = Inr (w', 0) \<and>
     stdout w' = stdout w @ debug_banner cfg @ (''Calculation Example'' @ [NL]) @ mode_banner cfg @
                 (if defined (CONFIG_CALCULATION cfg) then operation_name cfg @ result_line cfg else [])"
    by (simp add: r)
  with m b n l show ?thesis
    by blast
qed

theorem stdout_order_witness:
  "translates build_debug \<and> format_ok build_debug \<and>
   (\<exists>w'. main build_debug 1 [] start = Inr (w', 0) \<and>
      stdout w' = (''Addition'' @ [NL]) @ (''Calculation Example'' @ [NL]) @ (''Adding 37 to 73'' @ [NL]) @
                  ''Addition'' @ (''73 + 37 = 110'' @ [NL]))"
proof -
  have h: "translates build_debug"
    by (simp add: translates_def build_debug_def)
  have k: "format_ok build_debug"
    by (simp add: format_ok_def build_debug_def MODE_addition_def)
  have d: "debug_banner build_debug = ''Addition'' @ [NL]"
    and b: "mode_banner build_debug = ''Adding 37 to 73'' @ [NL]"
    and g: "defined (CONFIG_CALCULATION build_debug)"
    and n: "operation_name build_debug = ''Addition''"
    and r: "result_line build_debug = ''73 + 37 = 110'' @ [NL]"
    by (simp_all add: debug_banner_def mode_banner_def operation_name_def result_line_addition
          build_debug_def MODE_addition_def)
  from stdout_order [OF h k, of 1 "[]" start]
  obtain w' where "main build_debug 1 [] start = Inr (w', 0)"
    and "stdout w' = stdout start @ debug_banner build_debug @ (''Calculation Example'' @ [NL]) @
           mode_banner build_debug @
           (if defined (CONFIG_CALCULATION build_debug)
            then operation_name build_debug @ result_line build_debug else [])"
    by blast
  then have "main build_debug 1 [] start = Inr (w', 0) \<and>
      stdout w' = (''Addition'' @ [NL]) @ (''Calculation Example'' @ [NL]) @ (''Adding 37 to 73'' @ [NL]) @
                  ''Addition'' @ (''73 + 37 = 110'' @ [NL])"
    using d b g n r by (simp add: start_def)
  with h k show ?thesis by blast
qed

subsection \<open>The addition build\<close>

text \<open>
  Claim C7, as stated: when the build-time mode is Addition with operands \<open>(73, 37)\<close>,
  the program prints the banner "Adding 37 to 73" and then, if the calculation gate is
  enabled, the line "73 + 37 = 110". It fails in the addition build with Debug enabled:
  the line after the banner is "Addition73 + 37 = 110".
\<close>

theorem debug_addition_last_line:
  "map_sum id (lines_of \<circ> stdout \<circ> fst) (main build_debug 1 [] start) =
     Inr [''Addition'', ''Calculation Example'', ''Adding 37 to 73'', ''Addition73 + 37 = 110'']"
  by code_simp

text \<open>
  Claim C7, amended. When the build-time mode is Addition (\<^verbatim>\<open>CONFIG_ADDITION\<close>
  expands to a value that is not 0) with operands \<open>(73, 37)\<close>, the program prints the
  banner "Adding 37 to 73" and then, if the calculation gate is enabled, the text
  "73 + 37 = 110" and a newline; that text is a line of its own when Debug is not
  enabled, and follows the operation name "Addition" on the same line when it is. What
  precedes "Calculation Example" is the debug banner: nothing when Debug is not enabled,
  and otherwise the text of the format \<^verbatim>\<open>MODE\<close>, which has no specification
  that takes an argument.
\<close>

theorem addition_mode_output:
  assumes "CONFIG_ADDITION cfg = Some c" and "c \<noteq> 0" and "translates cfg"
    and "format_ok cfg"
  shows "\<exists>w'. main cfg argc argv w = Inr (w', 0) \<and>
     stdout w' = stdout w @ debug_banner cfg @ (''Calculation Example'' @ [NL]) @
                 (''Adding 37 to 73'' @ [NL]) @
                 (if defined (CONFIG_CALCULATION cfg)
                  then (if defined (CONFIG_DEBUG cfg) then ''Addition'' else []) @
                       (''73 + 37 = 110'' @ [NL])
                  else [])"
proof -
  from assms obtain s where s: "CONFIG_SUBSTRACTION cfg = Some s"
    by (auto simp: translates_def defined_iff)
  have b: "mode_banner cfg = ''Adding 37 to 73'' @ [NL]"
    using assms s by (simp add: mode_banner_def)
  have n: "operation_name cfg = (if defined (CONFIG_DEBUG cfg) then ''Addition'' else [])"
    using assms by (simp add: operation_name_def)
  show ?thesis
    unfolding main_translated [OF assms(3)] b n by simp
qed

theorem addition_mode_output_witness:
  "CONFIG_ADDITION build_addition = Some 1 \<and> translates build_addition \<and>
   format_ok build_addition \<and>
   (\<exists>w'. main build_addition 1 [] start = Inr (w', 0) \<and>
      stdout w' = (''Calculation Example'' @ [NL]) @ (''Adding 37 to 73'' @ [NL]) @
                  (''73 + 37 = 110'' @ [NL]) \<and>
      lines_of (stdout w') = [''Calculation Example'', ''Adding 37 to 73'', ''73 + 37 = 110''])"
proof -
  have h1: "CONFIG_ADDITION build_addition = Some 1"
    and h3: "translates build_addition"
    and h4: "format_ok build_addition"
    and g: "defined (CONFIG_CALCULATION build_addition)"
    and x: "\<not> defined (CONFIG_DEBUG build_addition)"
    and d: "debug_banner build_addition = []"
    by (simp_all add: build_addition_def translates_def format_ok_def debug_banner_def)
  have h2: "(1::int) \<noteq> 0" by simp
  have l: "lines_of ((''Calculation Example'' @ [NL]) @ (''Adding 37 to 73'' @ [NL]) @
                  (''73 + 37 = 110'' @ [NL])) =
           [''Calculation Example'', ''Adding 37 to 73'', ''73 + 37 = 110'']"
    by code_simp
  from addition_mode_output [OF h1 h2 h3 h4, of 1 "[]" start]
  obtain w' where "main build_addition 1 [] start = Inr (w', 0)"
    and "stdout w' = stdout start @ debug_banner build_addition @ (''Calculation Example'' @ [NL]) @
                 (''Adding 37 to 73'' @ [NL]) @
                 (if defined (CONFIG_CALCULATION build_addition)
                  then (if defined (CONFIG_DEBUG build_addition) then ''Addition'' else []) @
                       (''73 + 37 = 110'' @ [NL])
                  else [])"
    by blast
  then have "main build_addition 1 [] start = Inr (w', 0) \<and>
      stdout w' = (''Calculation Example'' @ [NL]) @ (''Adding 37 to 73'' @ [NL]) @
                  (''73 + 37 = 110'' @ [NL])"
    using g x d by (simp add: start_def)
  with l have "main build_addition 1 [] start = Inr (w', 0) \<and>
      stdout w' = (''Calculation Example'' @ [NL]) @ (''Adding 37 to 73'' @ [NL]) @
                  (''73 + 37 = 110'' @ [NL]) \<and>
      lines_of (stdout w') = [''Calculation Example'', ''Adding 37 to 73'', ''73 + 37 = 110'']"
    by simp
  with h1 h3 h4 show ?thesis by blast
qed

subsection \<open>Exit code and arguments\<close>

text \<open>
  Claim C8. For every build configuration and every input, the program terminates with
  process exit code 0; there is no failure path. A configuration gives a program exactly
  when \<^verbatim>\<open>main.c\<close> translates under it; that program returns, for all arguments
  and from every state, and the value it returns is 0.
\<close>

theorem main_exit_code:
  "(translates cfg \<longrightarrow> (\<exists>w'. main cfg argc argv w = Inr (w', 0))) \<and>
   (\<forall>w' rc. main cfg argc argv w = Inr (w', rc) \<longrightarrow> translates cfg \<and> rc = 0)"
proof (intro conjI impI allI)
  assume "translates cfg"
  then show "\<exists>w'. main cfg argc argv w = Inr (w', 0)"
    by (simp add: main_translated)
next
  fix w' rc
  assume r: "main cfg argc argv w = Inr (w', rc)"
  then show "translates cfg" by (rule main_Inr_translates)
  with r show "rc = 0" by (simp add: main_translated)
qed

theorem main_exit_code_witness:
  "translates build_subtraction \<and> (\<exists>w'. main build_subtraction 2 [''example'', ''-v''] start = Inr (w', 0))"
proof -
  have h: "translates build_subtraction"
    by (simp add: translates_def build_subtraction_def)
  from main_exit_code [of build_subtraction 2 "[''example'', ''-v'']" start] h
  show ?thesis by blast
qed

text \<open>
  Claim C9. For a fixed build configuration, two runs of the program with different
  command-line arguments produce identical standard output and identical exit codes.
\<close>

theorem main_ignores_arguments:
  "main cfg argc argv w = main cfg argc' argv' w"
  by (simp add: main_def)

subsection \<open>The operation name in debug builds\<close>

text \<open>
  Claim C10. In debug builds the operation-name text ("Addition" or "Substraction") is
  emitted without a trailing newline, so it is not a separate output line: it is
  concatenated onto the same line as the arithmetic result line that follows it. With
  Debug enabled and a branch of the conditional group kept, \<^verbatim>\<open>calc\<close> returns,
  and what it has written is the name, then the arithmetic text, then one newline;
  neither the name nor the arithmetic text holds a newline, so the two are one line.
\<close>

theorem debug_name_on_result_line:
  assumes "defined (CONFIG_DEBUG cfg)"
    and "defined (CONFIG_ADDITION cfg) \<or> defined (CONFIG_SUBTRACTION cfg)"
  shows "\<exists>w' name arith. calc cfg a b w = Inr w' \<and>
     stdout w' = stdout w @ name @ arith @ [NL] \<and>
     name = (if defined (CONFIG_ADDITION cfg) then ''Addition'' else ''Substraction'') \<and>
     arith @ [NL] =
       (if defined (CONFIG_ADDITION cfg) then format_result a (CHR ''+'') b (a + b)
        else format_result a (CHR ''-'') b (a - b)) \<and>
     NL \<notin> set name \<and> NL \<notin> set arith \<and>
     lines_of (name @ arith @ [NL]) = [name @ arith]"
proof (cases "defined (CONFIG_ADDITION cfg)")
  case True
  obtain arith where f: "format_result a (CHR ''+'') b (a + b) = arith @ [NL]" and n: "NL \<notin> set arith"
    using format_result_line [of "CHR ''+''" a b "a + b"] by auto
  have o: "operation_name cfg = ''Addition''"
    using True assms(1) by (simp add: operation_name_def)
  obtain w' where c: "calc cfg a b w = Inr w'"
    and s: "stdout w' = stdout w @ ''Addition'' @ arith @ [NL]"
    using True by (simp add: calc_writes_sum o f)
  have m: "NL \<notin> set ''Addition''" by simp
  with n have "NL \<notin> set (''Addition'' @ arith)" by simp
  then have "lines_of ((''Addition'' @ arith) @ [NL]) = [''Addition'' @ arith]"
    by (rule lines_of_single)
  then have l: "lines_of (''Addition'' @ arith @ [NL]) = [''Addition'' @ arith]"
    by (simp only: append_assoc)
  from c s f [symmetric] m n l True show ?thesis
    by (intro exI [of _ w'] exI [of _ "''Addition''"] exI [of _ arith]) (simp only: if_True simp_thms)
next
  case False
  with assms(2) have d: "defined (CONFIG_SUBTRACTION cfg)" by simp
  obtain arith where f: "format_result a (CHR ''-'') b (a - b) = arith @ [NL]" and n: "NL \<notin> set arith"
    using format_result_line [of "CHR ''-''" a b "a - b"] by auto
  have o: "operation_name cfg = ''Substraction''"
    using False d assms(1) by (simp add: operation_name_def)
  obtain w' where c: "calc cfg a b w = Inr w'"
    and s: "stdout w' = stdout w @ ''Substraction'' @ arith @ [NL]"
    using False d by (simp add: calc_writes_difference o f)
  have m: "NL \<notin> set ''Substraction''" by simp
  with n have "NL \<notin> set (''Substraction'' @ arith)" by simp
  then have "lines_of ((''Substraction'' @ arith) @ [NL]) = [''Substraction'' @ arith]"
    by (rule lines_of_single)
  then have l: "lines_of (''Substraction'' @ arith @ [NL]) = [''Substraction'' @ arith]"
    by (simp only: append_assoc)
  from c s f [symmetric] m n l False show ?thesis
    by (intro exI [of _ w'] exI [of _ "''Substraction''"] exI [of _ arith]) (simp only: if_False simp_thms)
qed

theorem debug_name_on_result_line_witness:
  "defined (CONFIG_DEBUG build_debug) \<and> defined (CONFIG_ADDITION build_debug) \<and>
   translates build_debug \<and>
   (\<exists>w'. calc build_debug 73 37 start = Inr w' \<and>
      stdout w' = ''Addition73 + 37 = 110'' @ [NL] \<and>
      lines_of (stdout w') = [''Addition73 + 37 = 110''])"
proof -
  have h1: "defined (CONFIG_DEBUG build_debug)"
    and ad: "defined (CONFIG_ADDITION build_debug)"
    and t: "translates build_debug"
    by (simp_all add: build_debug_def translates_def MODE_addition_def)
  from ad have h2: "defined (CONFIG_ADDITION build_debug) \<or> defined (CONFIG_SUBTRACTION build_debug)"
    by simp
  from debug_name_on_result_line [OF h1 h2, of 73 37 start]
  obtain w' name arith where c: "calc build_debug 73 37 start = Inr w'"
    and s: "stdout w' = stdout start @ name @ arith @ [NL]"
    and n: "name = (if defined (CONFIG_ADDITION build_debug) then ''Addition'' else ''Substraction'')"
    and f: "arith @ [NL] =
       (if defined (CONFIG_ADDITION build_debug) then format_result 73 (CHR ''+'') 37 (73 + 37)
        else format_result 73 (CHR ''-'') 37 (73 - 37))"
    and l: "lines_of (name @ arith @ [NL]) = [name @ arith]"
    by blast
  from f ad have a: "arith = ''73 + 37 = 110''"
    by (simp add: format_73_37)
  from n ad have "name = ''Addition''" by simp
  with s l a have "stdout w' = ''Addition73 + 37 = 110'' @ [NL] \<and>
      lines_of (stdout w') = [''Addition73 + 37 = 110'']"
    by (simp add: start_def del: lines_of.simps)
  with c h1 ad t show ?thesis by blast
qed

end
